theory Spec2Isabelle
  imports Main "HOL-Library.Sublist"
begin

section \<open>JavaScript values and the document types of \<open>src/app/page.tsx\<close>\<close>

text \<open>
  The operation objects of a Swagger document are typed \<open>any\<close> in the source
  (\<open>paths?: Record<string, any>\<close>), so they are modelled as JavaScript values.  An
  object is the list of its own enumerable properties in the order in which
  \<open>Object.keys\<close> enumerates them.  Numbers only occur here as values that are tested for
  truthiness, so an integer payload suffices.  Strings are Isabelle strings, read as
  ASCII text.
\<close>

datatype jsval =
    Undefined
  | Null
  | Bool bool
  | Num int
  | Str string
  | Arr "jsval list"
  | Obj "(string \<times> jsval) list"

datatype error = TypeError

text \<open>\<open>interface SwaggerDoc\<close>, with the fields the helper functions read.\<close>

record Server =
  url :: string

record SwaggerDoc =
  openapi :: "string option"
  servers :: "Server list option"
  host :: "string option"
  schemes :: "string list option"
  basePath :: "string option"
  paths :: "(string \<times> jsval) list option"

text \<open>
  \<open>interface Endpoint\<close>.  The fields copied from an operation object hold whatever
  value the operation holds, so they are JavaScript values.
\<close>

record Endpoint =
  path :: string
  "method" :: string
  summary :: jsval
  description :: jsval
  parameters :: jsval
  requestBody :: jsval
  tags :: jsval
  rawOperation :: jsval

subsection \<open>Primitive operations of the language\<close>

text \<open>\<open>!v\<close> is \<open>\<not> truthy v\<close>.\<close>

fun truthy :: "jsval \<Rightarrow> bool" where
  "truthy Undefined = False"
| "truthy Null = False"
| "truthy (Bool b) = b"
| "truthy (Num n) = (n \<noteq> 0)"
| "truthy (Str s) = (s \<noteq> [])"
| "truthy (Arr xs) = True"
| "truthy (Obj kvs) = True"

text \<open>\<open>typeof v === "object"\<close>: arrays and \<open>null\<close> are objects too.\<close>

fun typeof_object :: "jsval \<Rightarrow> bool" where
  "typeof_object Null = True"
| "typeof_object (Arr xs) = True"
| "typeof_object (Obj kvs) = True"
| "typeof_object v = False"

text \<open>\<open>v ?? d\<close>.\<close>

fun nullish :: "jsval \<Rightarrow> bool" where
  "nullish Undefined = True"
| "nullish Null = True"
| "nullish v = False"

definition coalesce :: "jsval \<Rightarrow> jsval \<Rightarrow> jsval" where
  "coalesce v d = (if nullish v then d else v)"

text \<open>
  \<open>m.name\<close> for one of the property names the extractor reads (\<open>parameters\<close>,
  \<open>requestBody\<close>, \<open>summary\<close>, \<open>operationId\<close>, \<open>description\<close>, \<open>tags\<close>) on a
  value that passed the \<open>typeof m === "object"\<close> test: an own property of an object,
  \<open>undefined\<close> on an array.
\<close>

fun get_prop :: "jsval \<Rightarrow> string \<Rightarrow> jsval" where
  "get_prop (Obj kvs) k = (case map_of kvs k of Some v \<Rightarrow> v | None \<Rightarrow> Undefined)"
| "get_prop v k = Undefined"

text \<open>\<open>String(i)\<close> for an array index.\<close>

fun string_of_nat :: "nat \<Rightarrow> string" where
  "string_of_nat n =
     (if n < 10 then [char_of (48 + n)]
      else string_of_nat (n div 10) @ [char_of (48 + n mod 10)])"

text \<open>
  The loops of the extractor have the shape
  \<open>for (const k of Object.keys(o)) { const v = o[k]; ... }\<close>, which visits the pairs of
  \<open>Object.entries(o)\<close>.  \<open>Object.keys\<close> throws a \<open>TypeError\<close> on \<open>null\<close> and
  \<open>undefined\<close>, yields no key for a boolean or a number, and the indices for a string
  or an array.
\<close>

fun Object_entries :: "jsval \<Rightarrow> error + (string \<times> jsval) list" where
  "Object_entries Undefined = Inl TypeError"
| "Object_entries Null = Inl TypeError"
| "Object_entries (Bool b) = Inr []"
| "Object_entries (Num n) = Inr []"
| "Object_entries (Str s) = Inr (map (\<lambda>i. (string_of_nat i, Str [s ! i])) [0..<length s])"
| "Object_entries (Arr xs) = Inr (map (\<lambda>i. (string_of_nat i, xs ! i)) [0..<length xs])"
| "Object_entries (Obj kvs) = Inr kvs"

text \<open>
  \<open>v.slice()\<close>: a copy of an array or of a string; any other value has no callable
  \<open>slice\<close>, and the call throws.
\<close>

fun slice :: "jsval \<Rightarrow> error + jsval" where
  "slice (Arr xs) = Inr (Arr xs)"
| "slice (Str s) = Inr (Str s)"
| "slice v = Inl TypeError"

text \<open>\<open>s.toUpperCase()\<close> on ASCII text.\<close>

definition upper_char :: "char \<Rightarrow> char" where
  "upper_char c =
     (let n = (of_char c :: nat)
      in if of_char CHR ''a'' \<le> n \<and> n \<le> of_char CHR ''z'' then char_of (n - 32) else c)"

definition toUpperCase :: "string \<Rightarrow> string" where
  "toUpperCase s = map upper_char s"

text \<open>\<open>s.startsWith(p)\<close>.\<close>

definition startsWith :: "string \<Rightarrow> string \<Rightarrow> bool" where
  "startsWith s p = (take (length p) s = p)"

section \<open>\<open>parseOpenAPI\<close>\<close>

text \<open>
  The body of the inner loop after the \<open>continue\<close> test: the descriptor pushed for
  path \<open>p\<close>, method key \<open>k\<close> and operation \<open>m\<close>.  The \<open>slice\<close> call may throw.
\<close>

definition build_endpoint :: "bool \<Rightarrow> string \<Rightarrow> string \<Rightarrow> jsval \<Rightarrow> error + Endpoint" where
  "build_endpoint isV3 p k m =
     (case slice (coalesce (get_prop m ''parameters'') (Arr [])) of
        Inl e \<Rightarrow> Inl e
      | Inr ps \<Rightarrow>
          Inr \<lparr> path = p,
                method = toUpperCase k,
                summary = (if truthy (get_prop m ''summary'') then get_prop m ''summary''
                           else get_prop m ''operationId''),
                description = get_prop m ''description'',
                parameters = ps,
                requestBody = (if isV3 then coalesce (get_prop m ''requestBody'') Null else Null),
                tags = coalesce (get_prop m ''tags'') (Arr []),
                rawOperation = m \<rparr>)"

text \<open>The inner loop over the method keys of one path item, threading \<open>out\<close>.\<close>

fun method_loop ::
  "bool \<Rightarrow> string \<Rightarrow> (string \<times> jsval) list \<Rightarrow> Endpoint list \<Rightarrow> error + Endpoint list" where
  "method_loop isV3 p [] out = Inr out"
| "method_loop isV3 p ((k, m) # rest) out =
     (if \<not> truthy m \<or> \<not> typeof_object m then method_loop isV3 p rest out
      else (case build_endpoint isV3 p k m of
              Inl e \<Rightarrow> Inl e
            | Inr ep \<Rightarrow> method_loop isV3 p rest (out @ [ep])))"

text \<open>The outer loop over the path keys.\<close>

fun path_loop :: "bool \<Rightarrow> (string \<times> jsval) list \<Rightarrow> Endpoint list \<Rightarrow> error + Endpoint list" where
  "path_loop isV3 [] out = Inr out"
| "path_loop isV3 ((p, obj) # rest) out =
     (case Object_entries obj of
        Inl e \<Rightarrow> Inl e
      | Inr ms \<Rightarrow>
          (case method_loop isV3 p ms out of
             Inl e \<Rightarrow> Inl e
           | Inr out' \<Rightarrow> path_loop isV3 rest out'))"

definition parseOpenAPI :: "SwaggerDoc option \<Rightarrow> error + Endpoint list" where
  "parseOpenAPI doc =
     (case doc of
        None \<Rightarrow> Inr []
      | Some d \<Rightarrow>
          (let isV3 = (case openapi d of Some v \<Rightarrow> startsWith v ''3'' | None \<Rightarrow> False);
               ps = (case paths d of Some kvs \<Rightarrow> kvs | None \<Rightarrow> [])
           in path_loop isV3 ps []))"

section \<open>\<open>detectBaseUrl\<close> and the base URL handed to \<open>generateJMX\<close>\<close>

text \<open>
  \<open>detectBaseUrl\<close> returns \<open>string | null\<close>.  On a document of type
  \<open>SwaggerDoc\<close> nothing in its \<open>try\<close> block throws.
\<close>

definition detectBaseUrl :: "SwaggerDoc \<Rightarrow> string option" where
  "detectBaseUrl doc =
     (case servers doc of
        Some (s # ss) \<Rightarrow> Some (url s)
      | _ \<Rightarrow>
          (case host doc of
             None \<Rightarrow> None
           | Some h \<Rightarrow>
               if h = [] then None
               else
                 (let scheme = (case schemes doc of Some (x # xs) \<Rightarrow> x | _ \<Rightarrow> ''http'')
                  in Some (scheme @ ''://'' @ h @ (case basePath doc of Some b \<Rightarrow> b | None \<Rightarrow> [])))))"

text \<open>
  The expression \<open>baseUrlOverride || detectBaseUrl(swagger) || "${BASE_URL}"\<close> of
  \<open>buildJmxAndDownload\<close>: the resolver of the specification.
\<close>

definition resolveBaseUrl :: "string \<Rightarrow> SwaggerDoc \<Rightarrow> string" where
  "resolveBaseUrl baseUrlOverride doc =
     (if baseUrlOverride \<noteq> [] then baseUrlOverride
      else (case detectBaseUrl doc of
              Some u \<Rightarrow> if u \<noteq> [] then u else ''${BASE_URL}''
            | None \<Rightarrow> ''${BASE_URL}''))"

section \<open>\<open>splitBaseUrl\<close>\<close>

text \<open>
  \<open>new URL(url)\<close> is the URL parser of the platform, not code of this repository.  It
  is a parameter \<open>URL_new\<close> of the model: \<open>None\<close> when the constructor throws,
  otherwise the attributes of the URL object.  \<open>u_pathname\<close> is never read by the
  source; the record carries it so that statements can speak about it.
\<close>

record URL =
  u_protocol :: string
  u_hostname :: string
  u_port :: string
  u_pathname :: string

record BaseUrlParts =
  protocol :: string
  host' :: string
  port :: string

text \<open>\<open>s.replace(":", "")\<close>: the first occurrence of the character is removed.\<close>

fun remove_first :: "char \<Rightarrow> string \<Rightarrow> string" where
  "remove_first c [] = []"
| "remove_first c (x # xs) = (if x = c then xs else x # remove_first c xs)"

definition splitBaseUrl :: "(string \<Rightarrow> URL option) \<Rightarrow> string \<Rightarrow> BaseUrlParts" where
  "splitBaseUrl URL_new s =
     (case URL_new s of
        None \<Rightarrow> \<lparr> protocol = ''${PROTOCOL}'', host' = ''${SERVER_NAME}'', port = ''${PORT}'' \<rparr>
      | Some u \<Rightarrow>
          (let protocol = remove_first CHR '':'' (u_protocol u);
               host = u_hostname u;
               port = (if u_port u \<noteq> [] then u_port u
                       else if protocol = ''https'' then ''443'' else ''80'')
           in \<lparr> protocol = protocol, host' = host, port = port \<rparr>))"

section \<open>\<open>escapeXml\<close>\<close>

text \<open>The callback of the \<open>replace\<close> call: the \<open>switch\<close> on the matched character.\<close>

definition escape_char :: "char \<Rightarrow> string" where
  "escape_char c =
     (if c = CHR ''<'' then ''&lt;''
      else if c = CHR ''>'' then ''&gt;''
      else if c = CHR ''&'' then ''&amp;''
      else if c = CHR 0x27 then ''&apos;''
      else if c = CHR 0x22 then ''&quot;''
      else [c])"

text \<open>
  \<open>String(s).replace(/[<>&'"]/g, ...)\<close> on a string: every character is replaced
  by its image, left to right.
\<close>

definition escapeXml :: "string \<Rightarrow> string" where
  "escapeXml s = concat (map escape_char s)"

section \<open>\<open>generateJMX\<close>\<close>

text \<open>An entry of \<open>commonHeaders\<close> and the argument object of \<open>generateJMX\<close>.\<close>

record Header =
  key :: string
  value' :: string

record JmxArgs =
  title :: string
  baseUrl :: string
  threads :: int
  rampTime :: int
  duration :: int
  endpoints :: "Endpoint list"
  commonHeaders :: "Header list"

text \<open>
  The interpolation \<open>${threads}\<close> of a number, for the integers that JavaScript prints
  in plain decimal notation.
\<close>

definition String_of_number :: "int \<Rightarrow> string" where
  "String_of_number n =
     (if n < 0 then CHR ''-'' # string_of_nat (nat (- n)) else string_of_nat (nat n))"

text \<open>\<open>s.trim()\<close> on ASCII text: tab, line feed, vertical tab, form feed, carriage return, space.\<close>

definition is_space :: "char \<Rightarrow> bool" where
  "is_space c = (c \<in> set [CHR 0x09, CHR 0x0A, CHR 0x0B, CHR 0x0C, CHR 0x0D, CHR 0x20])"

definition trim :: "string \<Rightarrow> string" where
  "trim s = rev (dropWhile is_space (rev (dropWhile is_space s)))"

text \<open>\<open>xs.join(sep)\<close>.\<close>

fun join :: "string \<Rightarrow> string list \<Rightarrow> string" where
  "join sep [] = []"
| "join sep [x] = x"
| "join sep (x # y # ys) = x @ sep @ join sep (y # ys)"

text \<open>
  The inner loop over \<open>commonHeaders\<close>: an entry whose key is blank after trimming is
  skipped, any other entry pushes the four lines of \<open>header_lines\<close>.
\<close>

definition header_lines :: "Header \<Rightarrow> string list" where
  \<open>header_lines h =
     (let keyEsc = escapeXml (key h);
          valueEsc = escapeXml (value' h)
      in
      [''<elementProp name="'' @ keyEsc @ ''" elementType="Header">'',
       ''<stringProp name="Header.name">'' @ keyEsc @ ''</stringProp>'',
       ''<stringProp name="Header.value">'' @ valueEsc @ ''</stringProp>'',
       ''</elementProp>''])\<close>

fun header_loop :: "Header list \<Rightarrow> string list \<Rightarrow> string list" where
  "header_loop [] jmx = jmx"
| "header_loop (h # hs) jmx =
     (if trim (key h) = [] then header_loop hs jmx
      else header_loop hs (jmx @ header_lines h))"

text \<open>
  The loop over \<open>endpoints\<close>.  One iteration pushes the sampler node, opens its
  children-group and the header manager, runs the header loop, and closes both.
\<close>

definition sampler_open :: "Endpoint \<Rightarrow> string list" where
  \<open>sampler_open ep =
     (let name = method ep @ '' '' @ path ep
      in
      [''<HTTPSamplerProxy guiclass="HttpTestSampleGui" testclass="HTTPSamplerProxy" testname="'' @ escapeXml name @ ''" enabled="true">'',
       ''<boolProp name="HTTPSampler.postBodyRaw">true</boolProp>'',
       ''<elementProp name="HTTPsampler.Arguments" elementType="Arguments">'',
       ''<collectionProp name="Arguments.arguments"></collectionProp>'',
       ''</elementProp>'',
       ''<stringProp name="HTTPSampler.domain">${SERVER_NAME}</stringProp>'',
       ''<stringProp name="HTTPSampler.port">${PORT}</stringProp>'',
       ''<stringProp name="HTTPSampler.protocol">${PROTOCOL}</stringProp>'',
       ''<stringProp name="HTTPSampler.path">'' @ escapeXml (path ep) @ ''</stringProp>'',
       ''<stringProp name="HTTPSampler.method">'' @ escapeXml (method ep) @ ''</stringProp>'',
       ''<boolProp name="HTTPSampler.follow_redirects">true</boolProp>'',
       ''<boolProp name="HTTPSampler.auto_redirects">false</boolProp>'',
       ''<boolProp name="HTTPSampler.use_keepalive">true</boolProp>'',
       ''<boolProp name="HTTPSampler.DO_MULTIPART_POST">false</boolProp>'',
       ''</HTTPSamplerProxy>'',
       ''<hashTree>'',
       ''<HeaderManager guiclass="HeaderPanel" testclass="HeaderManager" testname="HTTP Header Manager" enabled="true">'',
       ''<collectionProp name="HeaderManager.headers">''])\<close>

text \<open>The lines pushed in one iteration after the header loop.\<close>

definition sampler_close :: "string list" where
  \<open>sampler_close =
      [''</collectionProp>'',
       ''</HeaderManager>'',
       ''<hashTree />'',
       ''</hashTree>'']\<close>

fun sampler_loop :: "Header list \<Rightarrow> Endpoint list \<Rightarrow> string list \<Rightarrow> string list" where
  "sampler_loop hs [] jmx = jmx"
| "sampler_loop hs (ep # eps) jmx =
     sampler_loop hs eps (header_loop hs (jmx @ sampler_open ep) @ sampler_close)"

text \<open>
  The template literal pushed for the results collector: one array element of several
  lines, given here line by line.
\<close>

definition ResultCollector_lines :: "string list" where
  \<open>ResultCollector_lines =
    [''<ResultCollector guiclass="ViewResultsFullVisualizer" testclass="ResultCollector" testname="View Results Tree" enabled="true">'',
     ''            <boolProp name="ResultCollector.error_logging">false</boolProp>'',
     ''            <objProp>'',
     ''                <name>saveConfig</name>'',
     ''                <value class="SampleSaveConfiguration">'',
     ''                    <time>true</time>'',
     ''                    <latency>true</latency>'',
     ''                    <timestamp>true</timestamp>'',
     ''                    <success>true</success>'',
     ''                    <label>true</label>'',
     ''                    <code>true</code>'',
     ''                    <message>true</message>'',
     ''                    <threadName>true</threadName>'',
     ''                    <dataType>true</dataType>'',
     ''                    <encoding>true</encoding>'',
     ''                    <assertions>true</assertions>'',
     ''                    <subresults>true</subresults>'',
     ''                    <responseData>false</responseData>'',
     ''                    <samplerData>false</samplerData>'',
     ''                    <xml>true</xml>'',
     ''                    <fieldNames>true</fieldNames>'',
     ''                    <responseHeaders>false</responseHeaders>'',
     ''                    <requestHeaders>false</requestHeaders>'',
     ''                    <responseDataOnError>false</responseDataOnError>'',
     ''                    <saveAssertionResultsFailureMessage>true</saveAssertionResultsFailureMessage>'',
     ''                    <assertionsResultsToSave>0</assertionsResultsToSave>'',
     ''                    <bytes>true</bytes>'',
     ''                    <sentBytes>true</sentBytes>'',
     ''                    <url>true</url>'',
     ''                    <threadCounts>true</threadCounts>'',
     ''                    <idleTime>true</idleTime>'',
     ''                    <connectTime>true</connectTime>'',
     ''                </value>'',
     ''            </objProp>'',
     ''            <stringProp name="filename"></stringProp>'',
     ''        </ResultCollector>'']\<close>

definition ResultCollector :: string where
  "ResultCollector = join ''\<newline>'' ResultCollector_lines"

text \<open>
  The lines pushed before the sampler loop (up to the children-group of the plan node, then
  up to the children-group of the thread group) and after it.
\<close>

definition plan_open :: "string \<Rightarrow> string \<Rightarrow> BaseUrlParts \<Rightarrow> string list" where
  \<open>plan_open testPlanName varBaseUrl r =
      [''<?xml version="1.0" encoding="UTF-8"?>'',
       ''<jmeterTestPlan version="1.2" properties="5.0" jmeter="5.6.3">'',
       ''<hashTree>'',
       ''<TestPlan guiclass="TestPlanGui" testclass="TestPlan" testname="'' @ testPlanName @ ''" enabled="true">'',
       ''<stringProp name="TestPlan.comments"></stringProp>'',
       ''<boolProp name="TestPlan.functional_mode">false</boolProp>'',
       ''<boolProp name="TestPlan.tearDown_on_shutdown">true</boolProp>'',
       ''<boolProp name="TestPlan.serialize_threadgroups">false</boolProp>'',
       ''<elementProp name="TestPlan.user_defined_variables" elementType="Arguments">'',
       ''<collectionProp name="Arguments.arguments">'',
       ''<elementProp name="BASE_URL" elementType="Argument">'',
       ''<stringProp name="Argument.name">BASE_URL</stringProp>'',
       ''<stringProp name="Argument.value">'' @ escapeXml varBaseUrl @ ''</stringProp>'',
       ''<stringProp name="Argument.metadata">=</stringProp>'',
       ''</elementProp>'',
       ''<elementProp name="PROTOCOL" elementType="Argument">'',
       ''<stringProp name="Argument.name">PROTOCOL</stringProp>'',
       ''<stringProp name="Argument.value">'' @ escapeXml (protocol r) @ ''</stringProp>'',
       ''<stringProp name="Argument.metadata">=</stringProp>'',
       ''</elementProp>'',
       ''<elementProp name="SERVER_NAME" elementType="Argument">'',
       ''<stringProp name="Argument.name">SERVER_NAME</stringProp>'',
       ''<stringProp name="Argument.value">'' @ escapeXml (host' r) @ ''</stringProp>'',
       ''<stringProp name="Argument.metadata">=</stringProp>'',
       ''</elementProp>'',
       ''<elementProp name="PORT" elementType="Argument">'',
       ''<stringProp name="Argument.name">PORT</stringProp>'',
       ''<stringProp name="Argument.value">'' @ escapeXml (port r) @ ''</stringProp>'',
       ''<stringProp name="Argument.metadata">=</stringProp>'',
       ''</elementProp>'',
       ''</collectionProp>'',
       ''</elementProp>'',
       ''<stringProp name="TestPlan.user_define_classpath"></stringProp>'',
       ''</TestPlan>'',
       ''<hashTree>'']\<close>

definition thread_group_open :: "JmxArgs \<Rightarrow> string list" where
  \<open>thread_group_open a =
      [''<ThreadGroup guiclass="ThreadGroupGui" testclass="ThreadGroup" enabled="true" testname="Thread Group">'',
       ''<stringProp name="ThreadGroup.on_sample_error">continue</stringProp>'',
       ''<elementProp name="ThreadGroup.main_controller" elementType="LoopController">'',
       ''<boolProp name="LoopController.continue_forever">false</boolProp>'',
       ''<stringProp name="LoopController.loops">-1</stringProp>'',
       ''</elementProp>'',
       ''<stringProp name="ThreadGroup.num_threads">'' @ String_of_number (threads a) @ ''</stringProp>'',
       ''<stringProp name="ThreadGroup.ramp_time">'' @ String_of_number (rampTime a) @ ''</stringProp>'',
       ''<boolProp name="ThreadGroup.scheduler">true</boolProp>'',
       ''<stringProp name="ThreadGroup.duration">'' @ String_of_number (duration a) @ ''</stringProp>'',
       ''<stringProp name="ThreadGroup.delay"></stringProp>'',
       ''</ThreadGroup>'',
       ''<hashTree>'']\<close>

definition plan_close :: "string list" where
  \<open>plan_close =
      [ResultCollector,
       ''<hashTree />'',
       ''</hashTree>'',
       ''</hashTree>'',
       ''</hashTree>'',
       ''</jmeterTestPlan>'']\<close>

definition generateJMX_lines :: "(string \<Rightarrow> URL option) \<Rightarrow> JmxArgs \<Rightarrow> string list" where
  "generateJMX_lines URL_new a =
     (let testPlanName = escapeXml (if title a = [] then ''Test Plan'' else title a);
          varBaseUrl = (if baseUrl a = [] then ''${BASE_URL}'' else baseUrl a);
          r = splitBaseUrl URL_new varBaseUrl;
          jmx0 = plan_open testPlanName varBaseUrl r @ thread_group_open a;
          jmx1 = sampler_loop (commonHeaders a) (endpoints a) jmx0
      in jmx1 @ plan_close)"


section \<open>Notions of the specification\<close>

subsection \<open>The (path, method) pairs of a document\<close>

text \<open>
  A structured object is an array or an object: the values that pass the test
  \<open>!m || typeof m !== "object"\<close> of the extractor.
\<close>

definition is_structured :: "jsval \<Rightarrow> bool" where
  "is_structured v = (case v of Arr xs \<Rightarrow> True | Obj kvs \<Rightarrow> True | _ \<Rightarrow> False)"

text \<open>The method entries of a path item, none when the item has no keys to enumerate.\<close>

definition entries_of :: "jsval \<Rightarrow> (string \<times> jsval) list" where
  "entries_of obj = (case Object_entries obj of Inr ms \<Rightarrow> ms | Inl e \<Rightarrow> [])"

text \<open>
  The (path, method, operation) triples of a document whose operation is a structured
  object, in iteration order: paths first, then the methods within a path.
\<close>

definition retained_pairs :: "SwaggerDoc option \<Rightarrow> (string \<times> string \<times> jsval) list" where
  "retained_pairs doc =
     (case doc of
        None \<Rightarrow> []
      | Some d \<Rightarrow>
          concat (map (\<lambda>(p, obj). map (\<lambda>(k, m). (p, k, m))
                                       (filter (\<lambda>(k, m). is_structured m) (entries_of obj)))
                      (case paths d of Some kvs \<Rightarrow> kvs | None \<Rightarrow> [])))"

text \<open>The dialect test: the \<open>openapi\<close> field is present and starts with \<open>3\<close>.\<close>

definition isV3 :: "SwaggerDoc \<Rightarrow> bool" where
  "isV3 d = (case openapi d of Some v \<Rightarrow> prefix ''3'' v | None \<Rightarrow> False)"




subsection \<open>Sample documents\<close>

definition empty_doc :: SwaggerDoc where
  "empty_doc = \<lparr> openapi = None, servers = None, host = None, schemes = None,
                  basePath = None, paths = None \<rparr>"

text \<open>\<open>{"paths": {"/a": null}}\<close>\<close>

definition null_item_doc :: SwaggerDoc where
  "null_item_doc = empty_doc \<lparr> paths := Some [(''/a'', Null)] \<rparr>"


text \<open>
  \<open>{"openapi": "3.0.1", "paths": {"/users": {"get": {"summary": "List", "tags": ["u"]},
  "x-note": "n", "Post": {"operationId": "addUser", "requestBody": {"required": true}}},
  "/b": [{}]}}\<close>
\<close>

definition users_doc :: SwaggerDoc where
  "users_doc =
     empty_doc \<lparr> openapi := Some ''3.0.1'',
       paths := Some
         [(''/users'',
            Obj [(''get'', Obj [(''summary'', Str ''List''), (''tags'', Arr [Str ''u''])]),
                 (''x-note'', Str ''n''),
                 (''Post'', Obj [(''operationId'', Str ''addUser''),
                                 (''requestBody'', Obj [(''required'', Bool True)])])]),
          (''/b'', Arr [Obj []])] \<rparr>"

definition users_endpoints :: "Endpoint list" where
  "users_endpoints =
     [\<lparr> path = ''/users'', method = ''GET'', summary = Str ''List'', description = Undefined,
        parameters = Arr [], requestBody = Null, tags = Arr [Str ''u''],
        rawOperation = Obj [(''summary'', Str ''List''), (''tags'', Arr [Str ''u''])] \<rparr>,
      \<lparr> path = ''/users'', method = ''POST'', summary = Str ''addUser'', description = Undefined,
        parameters = Arr [], requestBody = Obj [(''required'', Bool True)], tags = Arr [],
        rawOperation = Obj [(''operationId'', Str ''addUser''),
                            (''requestBody'', Obj [(''required'', Bool True)])] \<rparr>,
      \<lparr> path = ''/b'', method = ''0'', summary = Undefined, description = Undefined,
        parameters = Arr [], requestBody = Null, tags = Arr [], rawOperation = Obj [] \<rparr>]"


text \<open>The documents of the examples of base-URL resolution.\<close>

definition servers_doc :: SwaggerDoc where
  "servers_doc = empty_doc \<lparr> servers := Some [\<lparr> url = ''https://api.x.com/v1'' \<rparr>] \<rparr>"

definition host_doc :: SwaggerDoc where
  "host_doc = empty_doc \<lparr> host := Some ''api.x.com'', schemes := Some [''https''],
                           basePath := Some ''/v1'' \<rparr>"

text \<open>\<open>{"servers": [{"url": ""}], "host": "api.x.com"}\<close>\<close>

definition empty_url_doc :: SwaggerDoc where
  "empty_url_doc = empty_doc \<lparr> servers := Some [\<lparr> url = [] \<rparr>], host := Some ''api.x.com'' \<rparr>"

subsection \<open>Case of ASCII letters\<close>




subsection \<open>Base-URL resolution\<close>

text \<open>The first listed scheme, or \<open>http\<close>.\<close>

definition first_scheme :: "SwaggerDoc \<Rightarrow> string" where
  "first_scheme doc = (case schemes doc of Some (x # xs) \<Rightarrow> x | _ \<Rightarrow> ''http'')"

text \<open>
  What the standard URL parser answers on the strings of the examples; it throws on
  \<open>not a url\<close> and on the placeholder \<open>${BASE_URL}\<close>.
\<close>

definition url_8443 :: URL where
  "url_8443 = \<lparr> u_protocol = ''https:'', u_hostname = ''api.x.com'', u_port = ''8443'',
                u_pathname = ''/v1'' \<rparr>"

definition url_v1 :: URL where
  "url_v1 = \<lparr> u_protocol = ''https:'', u_hostname = ''api.x.com'', u_port = [],
              u_pathname = ''/v1'' \<rparr>"

definition url_root :: URL where
  "url_root = \<lparr> u_protocol = ''https:'', u_hostname = ''api.x.com'', u_port = [],
                u_pathname = ''/'' \<rparr>"

definition url_localhost :: URL where
  "url_localhost = \<lparr> u_protocol = ''http:'', u_hostname = ''localhost'', u_port = [],
                     u_pathname = ''/'' \<rparr>"

definition sample_URL :: "string \<Rightarrow> URL option" where
  "sample_URL s =
     (if s = ''https://api.x.com:8443/v1'' then Some url_8443
      else if s = ''https://api.x.com/v1'' then Some url_v1
      else if s = ''https://api.x.com'' then Some url_root
      else if s = ''http://localhost'' then Some url_localhost
      else None)"

subsection \<open>The serialized plan\<close>

text \<open>A key is blank when it holds nothing but white space.\<close>

definition blank :: "string \<Rightarrow> bool" where
  "blank s = list_all is_space s"

text \<open>The entries of \<open>commonHeaders\<close> that are injected, in list order.\<close>

definition kept_headers :: "Header list \<Rightarrow> Header list" where
  "kept_headers hs = filter (\<lambda>h. \<not> blank (key h)) hs"

text \<open>
  The lines of one endpoint: the request node, its children-group with the header
  manager and its headers, and the closing lines.
\<close>

definition sampler_block :: "Header list \<Rightarrow> Endpoint \<Rightarrow> string list" where
  "sampler_block hs ep =
     sampler_open ep @ concat (map header_lines (kept_headers hs)) @ sampler_close"



text \<open>
  The structural lines of a plan: the container, the five kinds of node, and the three
  forms of the children-group marker \<open>hashTree\<close>.  Every other line is a property of a
  node.
\<close>

datatype node = TestPlan | ThreadGroup | HTTPSamplerProxy | HeaderManager | ResultCollectorNode




text \<open>
  The nesting the consumer reads: a node is followed by the group of its children, an
  empty marker when it has none.
\<close>

datatype tree = Tree node "tree list"





subsection \<open>Escaped text\<close>




subsection \<open>The markup of a text\<close>

text \<open>
  A text is read as an XML parser reads it.  Outside a tag, \<open><\<close> opens a tag and an
  ampersand must start one of the five predefined entity references.  Inside a tag, a
  double quote opens an attribute value, \<open>>\<close> ends the tag, and neither \<open><\<close> nor an
  apostrophe may occur.  Inside an attribute value, a double quote ends the value, \<open><\<close>
  may not occur and an ampersand must start an entity reference.  The scan fails
  (\<open>None\<close>) on a text that breaks these rules or ends inside a tag; otherwise it
  yields the tags in order, each without its attribute values.
\<close>

datatype mode = Text | Tag | Quoted

definition ref_start :: "string \<Rightarrow> bool" where
  "ref_start cs =
     (prefix ''lt;'' cs \<or> prefix ''gt;'' cs \<or> prefix ''amp;'' cs \<or>
      prefix ''apos;'' cs \<or> prefix ''quot;'' cs)"

fun scan :: "mode \<Rightarrow> string \<Rightarrow> string \<Rightarrow> string list option" where
  "scan Text acc [] = Some []"
| "scan Tag acc [] = None"
| "scan Quoted acc [] = None"
| "scan Text acc (c # cs) =
     (if c = CHR ''<'' then scan Tag [] cs
      else if c = CHR ''&'' then (if ref_start cs then scan Text [] cs else None)
      else scan Text [] cs)"
| "scan Tag acc (c # cs) =
     (if c = CHR ''>'' then map_option ((#) acc) (scan Text [] cs)
      else if c = CHR 0x22 then scan Quoted acc cs
      else if c = CHR ''<'' \<or> c = CHR 0x27 then None
      else scan Tag (acc @ [c]) cs)"
| "scan Quoted acc (c # cs) =
     (if c = CHR 0x22 then scan Tag acc cs
      else if c = CHR ''<'' then None
      else if c = CHR ''&'' then (if ref_start cs then scan Quoted acc cs else None)
      else scan Quoted acc cs)"







subsection \<open>A sample plan\<close>

definition get_users :: Endpoint where
  "get_users = \<lparr> path = ''/users'', method = ''GET'', summary = Undefined,
                 description = Undefined, parameters = Arr [], requestBody = Null,
                 tags = Arr [], rawOperation = Obj [] \<rparr>"

definition users_args :: JmxArgs where
  \<open>users_args =
     \<lparr> title = ''A<B & "C"'', baseUrl = ''https://api.x.com/v1'', threads = 10, rampTime = 1,
       duration = 60, endpoints = [get_users],
       commonHeaders = [\<lparr> key = [], value' = ''x'' \<rparr>, \<lparr> key = ''Auth'', value' = ''Bearer t'' \<rparr>] \<rparr>\<close>

text \<open>The local constants \<open>varBaseUrl\<close> and \<open>testPlanName\<close> of \<open>generateJMX\<close>.\<close>

definition varBaseUrl :: "JmxArgs \<Rightarrow> string" where
  "varBaseUrl a = (if baseUrl a = [] then ''${BASE_URL}'' else baseUrl a)"

definition testPlanName :: "JmxArgs \<Rightarrow> string" where
  "testPlanName a = escapeXml (if title a = [] then ''Test Plan'' else title a)"

section \<open>The endpoint extractor\<close>

lemma retained_iff: "(truthy m \<longrightarrow> \<not> typeof_object m) = (\<not> is_structured m)"
  by (cases m) (simp_all add: is_structured_def)

lemma startsWith_prefix: "startsWith s p = prefix p s"
  unfolding startsWith_def prefix_def
  by (metis append_eq_conv_conj append_take_drop_id)

lemma isV3_eq: "isV3 d = (case openapi d of Some v \<Rightarrow> startsWith v ''3'' | None \<Rightarrow> False)"
  by (simp add: isV3_def startsWith_prefix cong: option.case_cong)

text \<open>
  What a run of the inner loop that returns has appended to \<open>out\<close>: one descriptor for
  each structured entry, in order.
\<close>

lemma method_loop_all2:
  "method_loop v3 p ms out = Inr out' \<Longrightarrow>
     \<exists>new. out' = out @ new \<and>
       list_all2 (\<lambda>(k, m) e. build_endpoint v3 p k m = Inr e)
         (filter (\<lambda>(k, m). is_structured m) ms) new"
proof (induction ms arbitrary: out)
  case Nil
  then show ?case by simp
next
  case (Cons km ms)
  obtain k m where km: "km = (k, m)" by (cases km)
  show ?case
  proof (cases "is_structured m")
    case False
    with Cons km show ?thesis by (simp add: retained_iff)
  next
    case True
    with Cons.prems km obtain ep where b: "build_endpoint v3 p k m = Inr ep"
      and r: "method_loop v3 p ms (out @ [ep]) = Inr out'"
      by (auto simp: retained_iff split: sum.splits)
    from Cons.IH [OF r] obtain new where "out' = (out @ [ep]) @ new"
      and "list_all2 (\<lambda>(k, m) e. build_endpoint v3 p k m = Inr e)
         (filter (\<lambda>(k, m). is_structured m) ms) new" by blast
    with b True km show ?thesis by simp
  qed
qed

lemma path_loop_all2:
  "path_loop v3 ps out = Inr out' \<Longrightarrow>
     \<exists>new. out' = out @ new \<and>
       list_all2 (\<lambda>(p, k, m) e. build_endpoint v3 p k m = Inr e)
         (concat (map (\<lambda>(p, obj). map (\<lambda>(k, m). (p, k, m))
                         (filter (\<lambda>(k, m). is_structured m) (entries_of obj))) ps)) new"
proof (induction ps arbitrary: out)
  case Nil
  then show ?case by simp
next
  case (Cons po ps)
  obtain p obj where po: "po = (p, obj)" by (cases po)
  from Cons.prems po obtain ms mid where
    e: "Object_entries obj = Inr ms" and m: "method_loop v3 p ms out = Inr mid"
    and r: "path_loop v3 ps mid = Inr out'"
    by (auto split: sum.splits)
  from method_loop_all2 [OF m] obtain n1 where n1: "mid = out @ n1"
    "list_all2 (\<lambda>(k, m) e. build_endpoint v3 p k m = Inr e)
         (filter (\<lambda>(k, m). is_structured m) ms) n1" by blast
  from Cons.IH [OF r] obtain n2 where n2: "out' = mid @ n2"
    "list_all2 (\<lambda>(p, k, m) e. build_endpoint v3 p k m = Inr e)
         (concat (map (\<lambda>(p, obj). map (\<lambda>(k, m). (p, k, m))
                         (filter (\<lambda>(k, m). is_structured m) (entries_of obj))) ps)) n2" by blast
  have "list_all2 (\<lambda>(p, k, m) e. build_endpoint v3 p k m = Inr e)
          (map (\<lambda>(k, m). (p, k, m)) (filter (\<lambda>(k, m). is_structured m) ms)) n1"
    using n1(2) by (simp add: list_all2_map1 case_prod_unfold)
  with n1 n2 e po show ?case
    by (auto simp: entries_of_def intro!: list_all2_appendI)
qed

lemma parseOpenAPI_all2:
  "parseOpenAPI (Some d) = Inr eps \<Longrightarrow>
     list_all2 (\<lambda>(p, k, m) e. build_endpoint (isV3 d) p k m = Inr e) (retained_pairs (Some d)) eps"
  using path_loop_all2 [of "isV3 d" "case paths d of Some kvs \<Rightarrow> kvs | None \<Rightarrow> []" "[]" eps]
  by (auto simp: parseOpenAPI_def retained_pairs_def isV3_eq Let_def)

lemma build_endpoint_fields:
  "build_endpoint v3 p k m = Inr e \<Longrightarrow>
     path e = p \<and> method e = toUpperCase k \<and> rawOperation e = m \<and>
     summary e = (if truthy (get_prop m ''summary'') then get_prop m ''summary''
                  else get_prop m ''operationId'') \<and>
     requestBody e = (if v3 then coalesce (get_prop m ''requestBody'') Null else Null) \<and>
     tags e = coalesce (get_prop m ''tags'') (Arr [])"
  by (auto simp: build_endpoint_def split: sum.splits)



lemma list_all2_map_eq:
  "list_all2 (\<lambda>x y. f x = g y) xs ys \<Longrightarrow> map g ys = map f xs"
  by (induction rule: list_all2_induct) auto

lemma parseOpenAPI_users_doc: "parseOpenAPI (Some users_doc) = Inr users_endpoints"
  by code_simp

lemma parseOpenAPI_users_doc_v2:
  "parseOpenAPI (Some (users_doc \<lparr> openapi := Some ''2.0'' \<rparr>)) =
     Inr (map (\<lambda>e. e \<lparr> requestBody := Null \<rparr>) users_endpoints)"
  by code_simp

lemma retained_pairs_users_doc:
  "retained_pairs (Some users_doc) =
     [(''/users'', ''get'', Obj [(''summary'', Str ''List''), (''tags'', Arr [Str ''u''])]),
      (''/users'', ''Post'', Obj [(''operationId'', Str ''addUser''),
                                  (''requestBody'', Obj [(''required'', Bool True)])]),
      (''/b'', ''0'', Obj [])]"
  by code_simp






text \<open>
  C1.  The extractor does not return on every document: on a path entry whose value is
  \<open>null\<close>, \<open>Object.keys\<close> throws and \<open>parseOpenAPI\<close> raises a \<open>TypeError\<close>.
\<close>

theorem parseOpenAPI_null_path_item_raises:
  "parseOpenAPI (Some null_item_doc) = Inl TypeError"
  by (simp add: parseOpenAPI_def null_item_doc_def empty_doc_def)




text \<open>
  C8.  When the extractor returns on a document whose \<open>openapi\<close> field starts with
  \<open>3\<close>, the \<open>requestBody\<close> of each descriptor is the \<open>requestBody\<close> of the
  operation of its pair, unchanged, when the operation has one, and \<open>null\<close> (absent)
  otherwise.  When \<open>openapi\<close> is absent or does not start with \<open>3\<close>, the
  \<open>requestBody\<close> of every descriptor is \<open>null\<close>.
\<close>

theorem requestBody_passthrough:
  "parseOpenAPI (Some d) = Inr eps \<Longrightarrow>
     (isV3 d \<longrightarrow>
        map requestBody eps =
          map (\<lambda>(p, k, m). if nullish (get_prop m ''requestBody'') then Null
                            else get_prop m ''requestBody'') (retained_pairs (Some d))) \<and>
     (\<not> isV3 d \<longrightarrow> (\<forall>e\<in>set eps. requestBody e = Null))"
proof (intro conjI impI)
  assume r: "parseOpenAPI (Some d) = Inr eps"
  note a = parseOpenAPI_all2 [OF r]
  { assume v: "isV3 d"
    from a have "list_all2
        (\<lambda>x e. (\<lambda>(p, k, m). if nullish (get_prop m ''requestBody'') then Null
                               else get_prop m ''requestBody'') x = requestBody e)
        (retained_pairs (Some d)) eps"
      by (rule list_all2_mono) (auto dest: build_endpoint_fields simp: v coalesce_def)
    from list_all2_map_eq [OF this]
    show "map requestBody eps =
          map (\<lambda>(p, k, m). if nullish (get_prop m ''requestBody'') then Null
                            else get_prop m ''requestBody'') (retained_pairs (Some d))" . }
  { assume v: "\<not> isV3 d"
    from a have "list_all2 (\<lambda>x e. requestBody e = Null) (retained_pairs (Some d)) eps"
      by (rule list_all2_mono) (auto dest: build_endpoint_fields simp: v)
    then show "\<forall>e\<in>set eps. requestBody e = Null"
      by (induction rule: list_all2_induct) auto }
qed

theorem requestBody_passthrough_witness:
  "parseOpenAPI (Some users_doc) = Inr users_endpoints \<and> isV3 users_doc \<and>
   map requestBody users_endpoints = [Null, Obj [(''required'', Bool True)], Null] \<and>
   \<not> isV3 (users_doc \<lparr> openapi := Some ''2.0'' \<rparr>) \<and>
   map requestBody (map (\<lambda>e. e \<lparr> requestBody := Null \<rparr>) users_endpoints) = [Null, Null, Null]"
proof -
  have v: "isV3 users_doc" by code_simp
  have w: "\<not> isV3 (users_doc \<lparr> openapi := Some ''2.0'' \<rparr>)" by code_simp
  have "map requestBody users_endpoints =
          map (\<lambda>(p, k, m). if nullish (get_prop m ''requestBody'') then Null
                            else get_prop m ''requestBody'') (retained_pairs (Some users_doc))"
    using requestBody_passthrough [OF parseOpenAPI_users_doc] v by simp
  then have 1: "map requestBody users_endpoints = [Null, Obj [(''required'', Bool True)], Null]"
    by (simp add: retained_pairs_users_doc)
  have "\<forall>e\<in>set (map (\<lambda>e. e \<lparr> requestBody := Null \<rparr>) users_endpoints). requestBody e = Null"
    using requestBody_passthrough [OF parseOpenAPI_users_doc_v2] w by blast
  then have 2: "map requestBody (map (\<lambda>e. e \<lparr> requestBody := Null \<rparr>) users_endpoints) =
                  [Null, Null, Null]"
    by (simp add: users_endpoints_def)
  from parseOpenAPI_users_doc v w 1 2 show ?thesis by blast
qed

subsection \<open>Upper-casing\<close>








section \<open>The base-URL resolver\<close>

text \<open>
  C3, as stated, fails on a document whose first server has an empty \<open>url\<close>: the
  \<open>servers\<close> list is not empty, and the result is the placeholder, not that \<open>url\<close>.
\<close>

theorem resolveBaseUrl_empty_url_counterexample:
  "servers empty_url_doc = Some [\<lparr> url = [] \<rparr>] \<and>
   resolveBaseUrl [] empty_url_doc = ''${BASE_URL}''"
  by (simp add: empty_url_doc_def empty_doc_def resolveBaseUrl_def detectBaseUrl_def)

text \<open>
  C3, amended.  A non-empty override wins.  Otherwise, when the \<open>servers\<close> list is not
  empty, the result is the \<open>url\<close> of its first entry if that is not empty, and the
  placeholder \<open>${BASE_URL}\<close> if it is.  Otherwise, when the document has a non-empty
  \<open>host\<close>, the result is scheme, \<open>://\<close>, host and \<open>basePath\<close>, the scheme being the
  first listed one or \<open>http\<close>.  Otherwise the result is the placeholder.
\<close>

theorem resolveBaseUrl_precedence:
  "(ov \<noteq> [] \<longrightarrow> resolveBaseUrl ov doc = ov) \<and>
   (ov = [] \<and> servers doc = Some (s # ss) \<and> url s \<noteq> [] \<longrightarrow> resolveBaseUrl ov doc = url s) \<and>
   (ov = [] \<and> servers doc = Some (s # ss) \<and> url s = [] \<longrightarrow>
      resolveBaseUrl ov doc = ''${BASE_URL}'') \<and>
   (ov = [] \<and> (servers doc = None \<or> servers doc = Some []) \<and> host doc = Some h \<and> h \<noteq> [] \<longrightarrow>
      resolveBaseUrl ov doc =
        first_scheme doc @ ''://'' @ h @ (case basePath doc of Some b \<Rightarrow> b | None \<Rightarrow> [])) \<and>
   (ov = [] \<and> (servers doc = None \<or> servers doc = Some []) \<and>
      (host doc = None \<or> host doc = Some []) \<longrightarrow> resolveBaseUrl ov doc = ''${BASE_URL}'') \<and>
   (schemes doc = Some (x # xs) \<longrightarrow> first_scheme doc = x) \<and>
   (schemes doc = None \<or> schemes doc = Some [] \<longrightarrow> first_scheme doc = ''http'')"
  by (auto simp: resolveBaseUrl_def detectBaseUrl_def first_scheme_def Let_def
           split: option.splits list.splits)

theorem resolveBaseUrl_precedence_witness:
  "resolveBaseUrl ''http://localhost:5000'' servers_doc = ''http://localhost:5000'' \<and>
   resolveBaseUrl [] servers_doc = ''https://api.x.com/v1'' \<and>
   resolveBaseUrl [] host_doc = ''https://api.x.com/v1'' \<and>
   resolveBaseUrl [] (host_doc \<lparr> schemes := None \<rparr>) = ''http://api.x.com/v1'' \<and>
   resolveBaseUrl [] empty_url_doc = ''${BASE_URL}'' \<and>
   resolveBaseUrl [] empty_doc = ''${BASE_URL}''"
proof -
  have 1: "resolveBaseUrl ''http://localhost:5000'' servers_doc = ''http://localhost:5000''"
    using resolveBaseUrl_precedence [of "''http://localhost:5000''" servers_doc] by simp
  have 2: "resolveBaseUrl [] servers_doc = ''https://api.x.com/v1''"
    using resolveBaseUrl_precedence
      [of "[]" servers_doc "\<lparr> url = ''https://api.x.com/v1'' \<rparr>" "[]"]
    by (simp add: servers_doc_def empty_doc_def)
  have 3: "resolveBaseUrl [] host_doc = ''https://api.x.com/v1''"
    using resolveBaseUrl_precedence [of "[]" host_doc _ _ "''api.x.com''" "''https''" "[]"]
    by (simp add: host_doc_def empty_doc_def)
  have 4: "resolveBaseUrl [] (host_doc \<lparr> schemes := None \<rparr>) = ''http://api.x.com/v1''"
    using resolveBaseUrl_precedence [of "[]" "host_doc \<lparr> schemes := None \<rparr>" _ _ "''api.x.com''"]
    by (simp add: host_doc_def empty_doc_def)
  have 5: "resolveBaseUrl [] empty_url_doc = ''${BASE_URL}''"
    using resolveBaseUrl_precedence [of "[]" empty_url_doc "\<lparr> url = [] \<rparr>" "[]"]
    by (simp add: empty_url_doc_def empty_doc_def)
  have 6: "resolveBaseUrl [] empty_doc = ''${BASE_URL}''"
    using resolveBaseUrl_precedence [of "[]" empty_doc]
    by (simp add: empty_doc_def)
  from 1 2 3 4 5 6 show ?thesis by simp
qed

lemma remove_first_append:
  "c \<notin> set xs \<Longrightarrow> remove_first c (xs @ c # ys) = xs @ ys"
  by (induction xs) auto

text \<open>
  C4.  The split is a total function.  When the parser throws, the result is the triple
  of placeholders.  When it succeeds, the result is the protocol without its trailing
  colon, the host name, and the port: the explicit port, or \<open>443\<close> for \<open>https\<close> and
  \<open>80\<close> otherwise.  The protocol attribute of a parsed URL is a scheme, which holds no
  colon, followed by a colon.
\<close>

theorem splitBaseUrl_spec:
  "(URL_new s = None \<longrightarrow>
      splitBaseUrl URL_new s =
        \<lparr> protocol = ''${PROTOCOL}'', host' = ''${SERVER_NAME}'', port = ''${PORT}'' \<rparr>) \<and>
   (URL_new s = Some u \<and> u_protocol u = scheme @ '':'' \<and> CHR '':'' \<notin> set scheme \<longrightarrow>
      splitBaseUrl URL_new s =
        \<lparr> protocol = scheme, host' = u_hostname u,
          port = (if u_port u \<noteq> [] then u_port u
                  else if scheme = ''https'' then ''443'' else ''80'') \<rparr>)"
  using remove_first_append [of "CHR '':''" scheme "[]"]
  by (auto simp: splitBaseUrl_def Let_def)

theorem splitBaseUrl_spec_witness:
  "splitBaseUrl sample_URL ''https://api.x.com:8443/v1'' =
     \<lparr> protocol = ''https'', host' = ''api.x.com'', port = ''8443'' \<rparr> \<and>
   splitBaseUrl sample_URL ''https://api.x.com/v1'' =
     \<lparr> protocol = ''https'', host' = ''api.x.com'', port = ''443'' \<rparr> \<and>
   splitBaseUrl sample_URL ''http://localhost'' =
     \<lparr> protocol = ''http'', host' = ''localhost'', port = ''80'' \<rparr> \<and>
   splitBaseUrl sample_URL ''not a url'' =
     \<lparr> protocol = ''${PROTOCOL}'', host' = ''${SERVER_NAME}'', port = ''${PORT}'' \<rparr> \<and>
   splitBaseUrl sample_URL ''${BASE_URL}'' =
     \<lparr> protocol = ''${PROTOCOL}'', host' = ''${SERVER_NAME}'', port = ''${PORT}'' \<rparr>"
proof -
  have 1: "splitBaseUrl sample_URL ''https://api.x.com:8443/v1'' =
     \<lparr> protocol = ''https'', host' = ''api.x.com'', port = ''8443'' \<rparr>"
    using splitBaseUrl_spec [of sample_URL "''https://api.x.com:8443/v1''" url_8443 "''https''"]
    by (simp add: sample_URL_def url_8443_def)
  have 2: "splitBaseUrl sample_URL ''https://api.x.com/v1'' =
     \<lparr> protocol = ''https'', host' = ''api.x.com'', port = ''443'' \<rparr>"
    using splitBaseUrl_spec [of sample_URL "''https://api.x.com/v1''" url_v1 "''https''"]
    by (simp add: sample_URL_def url_v1_def)
  have 3: "splitBaseUrl sample_URL ''http://localhost'' =
     \<lparr> protocol = ''http'', host' = ''localhost'', port = ''80'' \<rparr>"
    using splitBaseUrl_spec [of sample_URL "''http://localhost''" url_localhost "''http''"]
    by (simp add: sample_URL_def url_localhost_def)
  have 4: "splitBaseUrl sample_URL ''not a url'' =
     \<lparr> protocol = ''${PROTOCOL}'', host' = ''${SERVER_NAME}'', port = ''${PORT}'' \<rparr>"
    using splitBaseUrl_spec [of sample_URL "''not a url''"]
    by (simp add: sample_URL_def)
  have 5: "splitBaseUrl sample_URL ''${BASE_URL}'' =
     \<lparr> protocol = ''${PROTOCOL}'', host' = ''${SERVER_NAME}'', port = ''${PORT}'' \<rparr>"
    using splitBaseUrl_spec [of sample_URL "''${BASE_URL}''"]
    by (simp add: sample_URL_def)
  from 1 2 3 4 5 show ?thesis by simp
qed

section \<open>The plan serializer\<close>

subsection \<open>The loops in closed form\<close>

lemma trim_Nil_iff: "(trim s = []) = blank s"
proof
  assume "trim s = []"
  then have "\<forall>x\<in>set (dropWhile is_space s). is_space x"
    by (simp add: trim_def)
  then have "dropWhile is_space s = []"
    by (metis hd_dropWhile list.set_sel(1))
  then show "blank s" by (simp add: blank_def list_all_iff)
next
  assume "blank s"
  then have "dropWhile is_space s = []"
    by (simp add: blank_def list_all_iff)
  then show "trim s = []" by (simp add: trim_def del: dropWhile_eq_Nil_conv)
qed

lemma header_loop_eq:
  "header_loop hs jmx = jmx @ concat (map header_lines (kept_headers hs))"
  by (induction hs arbitrary: jmx) (simp_all add: kept_headers_def trim_Nil_iff)

lemma sampler_loop_eq:
  "sampler_loop hs eps jmx = jmx @ concat (map (sampler_block hs) eps)"
  by (induction eps arbitrary: jmx) (simp_all add: header_loop_eq sampler_block_def)

lemma generateJMX_lines_eq:
  "generateJMX_lines URL_new a =
     plan_open (escapeXml (if title a = [] then ''Test Plan'' else title a))
               (if baseUrl a = [] then ''${BASE_URL}'' else baseUrl a)
               (splitBaseUrl URL_new (if baseUrl a = [] then ''${BASE_URL}'' else baseUrl a)) @
     thread_group_open a @
     concat (map (sampler_block (commonHeaders a)) (endpoints a)) @
     plan_close"
  by (simp add: generateJMX_lines_def Let_def sampler_loop_eq)

lemma generateJMX_lines_eq':
  "generateJMX_lines URL_new a =
     plan_open (testPlanName a) (varBaseUrl a) (splitBaseUrl URL_new (varBaseUrl a)) @
     thread_group_open a @
     concat (map (sampler_block (commonHeaders a)) (endpoints a)) @ plan_close"
  by (simp add: generateJMX_lines_eq varBaseUrl_def testPlanName_def)

lemma length_plan_open: "length (plan_open t b r) = 35"
  by (simp add: plan_open_def)

lemma length_thread_group_open: "length (thread_group_open a) = 13"
  by (simp add: thread_group_open_def)




subsection \<open>The markup of the serialized text\<close>


lemma ref_start_append [simp]: "ref_start cs \<Longrightarrow> ref_start (cs @ r)"
  by (auto simp: ref_start_def)








lemma scan_Quoted_escape_char: "scan Quoted acc (escape_char c @ r) = scan Quoted acc r"
  by (simp add: escape_char_def ref_start_def)

lemma scan_Text_escape_char: "scan Text [] (escape_char c @ r) = scan Text [] r"
  by (simp add: escape_char_def ref_start_def)

lemma scan_Quoted_escape [simp]: "scan Quoted acc (escapeXml s @ r) = scan Quoted acc r"
  by (induction s) (simp_all add: escapeXml_def scan_Quoted_escape_char)

lemma scan_Text_escape [simp]: "scan Text [] (escapeXml s @ r) = scan Text [] r"
  by (induction s) (simp_all add: escapeXml_def scan_Text_escape_char)

lemma scan_Text_plain:
  "CHR ''<'' \<notin> set s \<Longrightarrow> CHR ''&'' \<notin> set s \<Longrightarrow> scan Text [] (s @ r) = scan Text [] r"
  by (induction s) auto

lemma digit_char: "(n::nat) < 10 \<Longrightarrow> char_of (48 + n) \<noteq> CHR ''<'' \<and> char_of (48 + n) \<noteq> CHR ''&''"
proof (intro conjI notI)
  assume n: "n < 10"
  { assume "char_of (48 + n) = CHR ''<''"
    then have "(of_char (char_of (48 + n)) :: nat) = of_char CHR ''<''" by simp
    with n show False by simp }
  { assume "char_of (48 + n) = CHR ''&''"
    then have "(of_char (char_of (48 + n)) :: nat) = of_char CHR ''&''" by simp
    with n show False by simp }
qed

lemma string_of_nat_plain:
  "CHR ''<'' \<notin> set (string_of_nat n) \<and> CHR ''&'' \<notin> set (string_of_nat n)"
proof (induction n rule: string_of_nat.induct)
  case (1 n)
  show ?case
  proof (cases "n < 10")
    case True
    then show ?thesis using digit_char [of n] by (subst string_of_nat.simps, subst string_of_nat.simps) auto
  next
    case False
    have "n mod 10 < 10" by simp
    from digit_char [OF this] 1 False show ?thesis
      by (subst string_of_nat.simps, subst string_of_nat.simps) auto
  qed
qed

lemma scan_Text_number [simp]: "scan Text [] (String_of_number n @ r) = scan Text [] r"
  using string_of_nat_plain by (simp add: String_of_number_def scan_Text_plain)












subsection \<open>Header injection\<close>














subsection \<open>Structural nesting\<close>
















subsection \<open>Escaping\<close>









lemma plan_open_update:
  \<open>plan_open t b' r =
     (plan_open t b r)[12 := ''<stringProp name="Argument.value">'' @ escapeXml b' @ ''</stringProp>'']\<close>
  by (simp add: plan_open_def)

lemma sampler_open_nth:
  \<open>sampler_open ep ! 0 =
     ''<HTTPSamplerProxy guiclass="HttpTestSampleGui" testclass="HTTPSamplerProxy" testname="'' @
       escapeXml (method ep @ '' '' @ path ep) @ ''" enabled="true">''\<close>
  \<open>sampler_open ep ! 5 = ''<stringProp name="HTTPSampler.domain">${SERVER_NAME}</stringProp>''\<close>
  \<open>sampler_open ep ! 6 = ''<stringProp name="HTTPSampler.port">${PORT}</stringProp>''\<close>
  \<open>sampler_open ep ! 7 = ''<stringProp name="HTTPSampler.protocol">${PROTOCOL}</stringProp>''\<close>
  \<open>sampler_open ep ! 8 = ''<stringProp name="HTTPSampler.path">'' @ escapeXml (path ep) @ ''</stringProp>''\<close>
  \<open>sampler_open ep ! 9 =
     ''<stringProp name="HTTPSampler.method">'' @ escapeXml (method ep) @ ''</stringProp>''\<close>
  by (simp_all add: sampler_open_def Let_def)




subsection \<open>The path of the base URL\<close>

lemma splitBaseUrl_cong:
  "URL_new b = Some u \<Longrightarrow> URL_new' b' = Some u' \<Longrightarrow> u_protocol u' = u_protocol u \<Longrightarrow>
   u_hostname u' = u_hostname u \<Longrightarrow> u_port u' = u_port u \<Longrightarrow>
   splitBaseUrl URL_new' b' = splitBaseUrl URL_new b"
  by (simp add: splitBaseUrl_def Let_def)

text \<open>
  C10.  The split reads the protocol, the host name and the port of the parsed base URL
  and nothing else: two base URLs that parse to the same three attributes, whatever
  their path components, split alike, and the plans serialized for them differ in one
  line only, the value of the \<open>BASE_URL\<close> variable.  The lines from index 48 on are
  the endpoint blocks and the closing lines, which do not depend on the base URL: each
  request node addresses \<open>${SERVER_NAME}\<close>, \<open>${PORT}\<close> and \<open>${PROTOCOL}\<close>, and its path
  field is the escaped path of the endpoint alone.
\<close>

theorem base_path_discarded:
  "(URL_new b = Some u \<and> URL_new b' = Some u' \<and> u_protocol u' = u_protocol u \<and>
    u_hostname u' = u_hostname u \<and> u_port u' = u_port u \<longrightarrow>
      splitBaseUrl URL_new b' = splitBaseUrl URL_new b \<and>
      (b \<noteq> [] \<and> b' \<noteq> [] \<longrightarrow>
         generateJMX_lines URL_new (a \<lparr> baseUrl := b' \<rparr>) =
           (generateJMX_lines URL_new (a \<lparr> baseUrl := b \<rparr>))
             [12 := ''<stringProp name=\"Argument.value\">'' @ escapeXml b' @ ''</stringProp>''])) \<and>
   drop 48 (generateJMX_lines URL_new a) =
     concat (map (sampler_block (commonHeaders a)) (endpoints a)) @ plan_close \<and>
   sampler_block hs ep ! 5 = ''<stringProp name=\"HTTPSampler.domain\">${SERVER_NAME}</stringProp>'' \<and>
   sampler_block hs ep ! 6 = ''<stringProp name=\"HTTPSampler.port\">${PORT}</stringProp>'' \<and>
   sampler_block hs ep ! 7 = ''<stringProp name=\"HTTPSampler.protocol\">${PROTOCOL}</stringProp>'' \<and>
   sampler_block hs ep ! 8 =
     ''<stringProp name=\"HTTPSampler.path\">'' @ escapeXml (path ep) @ ''</stringProp>''"
proof (intro conjI impI)
  assume h: "URL_new b = Some u \<and> URL_new b' = Some u' \<and> u_protocol u' = u_protocol u \<and>
    u_hostname u' = u_hostname u \<and> u_port u' = u_port u"
  then show s: "splitBaseUrl URL_new b' = splitBaseUrl URL_new b"
    using splitBaseUrl_cong [of URL_new b u URL_new b' u'] by simp
  assume n: "b \<noteq> [] \<and> b' \<noteq> []"
  let ?r = "splitBaseUrl URL_new b"
  define T where "T = thread_group_open a @
    concat (map (sampler_block (commonHeaders a)) (endpoints a)) @ plan_close"
  define v where "v = ''<stringProp name=\"Argument.value\">'' @ escapeXml b' @ ''</stringProp>''"
  have L: "generateJMX_lines URL_new (a \<lparr> baseUrl := x \<rparr>) =
             plan_open (testPlanName a) x (splitBaseUrl URL_new x) @ T" if "x \<noteq> []" for x
    using that
    by (simp add: generateJMX_lines_eq' varBaseUrl_def testPlanName_def thread_group_open_def T_def)
  have P: "plan_open (testPlanName a) b' ?r = (plan_open (testPlanName a) b ?r)[12 := v]"
    unfolding v_def by (rule plan_open_update)
  have "generateJMX_lines URL_new (a \<lparr> baseUrl := b' \<rparr>) = plan_open (testPlanName a) b' ?r @ T"
    using L [of b'] n s by simp
  also have "\<dots> = (plan_open (testPlanName a) b ?r)[12 := v] @ T"
    by (simp only: P)
  also have "\<dots> = (plan_open (testPlanName a) b ?r @ T)[12 := v]"
    by (simp add: list_update_append length_plan_open)
  also have "\<dots> = (generateJMX_lines URL_new (a \<lparr> baseUrl := b \<rparr>))[12 := v]"
    using L [of b] n by simp
  finally show "generateJMX_lines URL_new (a \<lparr> baseUrl := b' \<rparr>) =
           (generateJMX_lines URL_new (a \<lparr> baseUrl := b \<rparr>))
             [12 := ''<stringProp name=\"Argument.value\">'' @ escapeXml b' @ ''</stringProp>'']"
    unfolding v_def .
next
  show "drop 48 (generateJMX_lines URL_new a) =
     concat (map (sampler_block (commonHeaders a)) (endpoints a)) @ plan_close"
    by (simp add: generateJMX_lines_eq' length_plan_open length_thread_group_open)
qed (simp_all add: sampler_block_def nth_append sampler_open_nth, simp_all add: sampler_open_def)

theorem base_path_discarded_witness:
  \<open>sample_URL ''https://api.x.com/v1'' = Some url_v1 \<and>
   sample_URL ''https://api.x.com'' = Some url_root \<and>
   u_pathname url_v1 = ''/v1'' \<and> u_pathname url_root = ''/'' \<and>
   splitBaseUrl sample_URL ''https://api.x.com'' = splitBaseUrl sample_URL ''https://api.x.com/v1'' \<and>
   generateJMX_lines sample_URL (users_args \<lparr> baseUrl := ''https://api.x.com'' \<rparr>) =
     (generateJMX_lines sample_URL (users_args \<lparr> baseUrl := ''https://api.x.com/v1'' \<rparr>))
       [12 := ''<stringProp name="Argument.value">https://api.x.com</stringProp>''] \<and>
   sampler_block (commonHeaders users_args) get_users ! 8 =
     ''<stringProp name="HTTPSampler.path">/users</stringProp>''\<close>
proof -
  have p: "sample_URL ''https://api.x.com/v1'' = Some url_v1"
    "sample_URL ''https://api.x.com'' = Some url_root"
    by (simp_all add: sample_URL_def)
  have q: "u_pathname url_v1 = ''/v1''" "u_pathname url_root = ''/''"
    "u_protocol url_root = u_protocol url_v1" "u_hostname url_root = u_hostname url_v1"
    "u_port url_root = u_port url_v1"
    by (simp_all add: url_v1_def url_root_def)
  have e: "escapeXml ''https://api.x.com'' = ''https://api.x.com''" "escapeXml ''/users'' = ''/users''"
    by (simp_all add: escapeXml_def escape_char_def)
  have g: "path get_users = ''/users''" by (simp add: get_users_def)
  from base_path_discarded [of sample_URL "''https://api.x.com/v1''" url_v1
      "''https://api.x.com''" url_root users_args "commonHeaders users_args" get_users] p q
  show ?thesis by (simp add: e g)
qed

end
